theory Spec2Isabelle
  imports Complex_Main "HOL-Library.AList"
begin

section \<open>Daily aggregation and rolling correlation: the data model\<close>

text \<open>
  The embedding follows \<^verbatim>\<open>services/processor/daily_aggregator.py\<close>,
  \<^verbatim>\<open>daily_correlation.py\<close>, \<^verbatim>\<open>timeseries_builder.py\<close> and the endpoint of
  \<^verbatim>\<open>services/api/main.py\<close>.

  Conventions of the model:
  \<^item> a Python \<^verbatim>\<open>float\<close> is a real number: rounding, overflow and the special values of
    IEEE arithmetic are not represented, \<^verbatim>\<open>None\<close> is \<open>None\<close> of an option type;
  \<^item> a \<^verbatim>\<open>date\<close> is its day number (an \<open>int\<close>), a naive \<^verbatim>\<open>datetime\<close> is a number of
    microseconds counted from midnight of day 0; the range limits of the \<^verbatim>\<open>datetime\<close>
    library are not represented;
  \<^item> a MongoDB collection is the list of its documents; a document of a collection is a
    record whose optional fields are \<open>None\<close> when the field is null or absent;
  \<^item> an exception is a value: a function that can raise returns a sum, or a pair of the
    exception (if any) and the collection as the exception leaves it;
  \<^item> \<^verbatim>\<open>datetime.now(UTC)\<close> reads a clock that the model takes as an argument.
\<close>

datatype py_error =
    NameError string
  | KeyError
  | IndexError
  | ZeroDivisionError
  | ComplexResult

type_synonym pdate = int
type_synonym pdatetime = int

definition usec_per_day :: int where
  "usec_per_day = 86400000000"

text \<open>\<^verbatim>\<open>datetime(d.year, d.month, d.day)\<close>: midnight of the day.\<close>

definition start_of_day :: "pdate \<Rightarrow> pdatetime" where
  "start_of_day d = d * usec_per_day"

text \<open>\<^verbatim>\<open>ts.date()\<close>: the time of day is dropped.\<close>

definition date_of :: "pdatetime \<Rightarrow> pdate" where
  "date_of ts = ts div usec_per_day"

text \<open>A document of \<^verbatim>\<open>daily_ticker_metrics\<close>.\<close>

record daily_metric =
  doc_id :: nat
  ticker :: string
  date :: pdatetime
  close_price :: "real option"
  daily_return :: "real option"
  avg_sentiment_score :: "real option"
  dominant_sentiment_label :: "string option"
  article_count :: "int option"
  updated_at :: "pdatetime option"
  rolling_corr_7d :: "real option"
  corr_updated_at :: "pdatetime option"

definition TICKERS :: "string list" where
  "TICKERS = [''AAPL'', ''MSFT'', ''TSLA'', ''NVDA'']"

section \<open>The rolling correlation engine\<close>

text \<open>
  \<^verbatim>\<open>num / (den_x * den_y) ** 0.5\<close>: a float division raises on a zero divisor, and the
  power with exponent one half of a negative float is a complex number, which the model
  keeps apart as its own outcome.
\<close>

definition py_pow_half :: "real \<Rightarrow> py_error + real" where
  "py_pow_half b = (if b < 0 then Inl ComplexResult else Inr (sqrt b))"

definition py_truediv :: "real \<Rightarrow> real \<Rightarrow> py_error + real" where
  "py_truediv a b = (if b = 0 then Inl ZeroDivisionError else Inr (a / b))"

definition pearson_corr :: "(real \<times> real) list \<Rightarrow> py_error + real option" where
  "pearson_corr pairs =
    (let n = length pairs in
     if n < 2 then Inr None
     else
       let xs = map fst pairs;
           ys = map snd pairs;
           mean_x = sum_list xs / real n;
           mean_y = sum_list ys / real n;
           num = sum_list (map (\<lambda>(x, y). (x - mean_x) * (y - mean_y)) (zip xs ys));
           den_x = sum_list (map (\<lambda>x. (x - mean_x) ^ 2) xs);
           den_y = sum_list (map (\<lambda>y. (y - mean_y) ^ 2) ys)
       in if den_x = 0 \<or> den_y = 0 then Inr None
          else (case py_pow_half (den_x * den_y) of
                  Inl e \<Rightarrow> Inl e
                | Inr denom \<Rightarrow>
                    (case py_truediv num denom of
                       Inl e \<Rightarrow> Inl e
                     | Inr r \<Rightarrow> Inr (Some r))))"

text \<open>An entry of the list \<^verbatim>\<open>history\<close>.\<close>

record hist_entry =
  h_date :: pdatetime
  h_ret :: "real option"
  h_sent :: "real option"

definition hist_of :: "daily_metric \<Rightarrow> hist_entry" where
  "hist_of doc = \<lparr>h_date = date doc, h_ret = daily_return doc, h_sent = avg_sentiment_score doc\<rparr>"

text \<open>\<^verbatim>\<open>history.append(...)\<close>, then \<^verbatim>\<open>history.pop(0)\<close> when the list is longer than the window.\<close>

definition push_history :: "int \<Rightarrow> hist_entry list \<Rightarrow> hist_entry \<Rightarrow> hist_entry list" where
  "push_history window history h =
    (let history1 = history @ [h]
     in if int (length history1) > window then tl history1 else history1)"

text \<open>The valid pairs of the current window.\<close>

definition window_pairs :: "hist_entry list \<Rightarrow> (real \<times> real) list" where
  "window_pairs history =
    List.map_filter
      (\<lambda>h. case h_ret h of
             None \<Rightarrow> None
           | Some r \<Rightarrow> (case h_sent h of None \<Rightarrow> None | Some s \<Rightarrow> Some (r, s)))
      history"

text \<open>\<^verbatim>\<open>corr = pearson_corr(pairs) if pairs else None\<close>\<close>

definition window_corr :: "hist_entry list \<Rightarrow> py_error + real option" where
  "window_corr history =
    (let pairs = window_pairs history
     in if pairs \<noteq> [] then pearson_corr pairs else Inr None)"

text \<open>
  \<^verbatim>\<open>coll.update_one({"_id": i}, {"$set": ...})\<close>: the first document with that identifier
  is changed, all other documents are left as they are.
\<close>

fun update_one_by_id ::
  "daily_metric list \<Rightarrow> nat \<Rightarrow> (daily_metric \<Rightarrow> daily_metric) \<Rightarrow> daily_metric list" where
  "update_one_by_id [] i f = []"
| "update_one_by_id (r # rs) i f =
     (if doc_id r = i then f r # rs else r # update_one_by_id rs i f)"

definition set_corr :: "real option \<Rightarrow> pdatetime \<Rightarrow> daily_metric \<Rightarrow> daily_metric" where
  "set_corr corr now doc = doc\<lparr>rolling_corr_7d := corr, corr_updated_at := Some now\<rparr>"

text \<open>
  The loop over \<^verbatim>\<open>docs\<close>. The documents were read into a list before the loop, so the
  writes of the loop do not change what it reads. \<open>clock k\<close> is the time read at the write
  number \<open>k\<close>, and \<open>updated\<close> is the counter of the source.
\<close>

fun corr_loop ::
  "int \<Rightarrow> (nat \<Rightarrow> pdatetime) \<Rightarrow> daily_metric list \<Rightarrow> hist_entry list \<Rightarrow> nat \<Rightarrow>
   daily_metric list \<Rightarrow> py_error option \<times> daily_metric list" where
  "corr_loop window clock [] history updated coll = (None, coll)"
| "corr_loop window clock (doc # docs) history updated coll =
     (let history1 = push_history window history (hist_of doc)
      in case window_corr history1 of
           Inl e \<Rightarrow> (Some e, coll)
         | Inr corr \<Rightarrow>
             corr_loop window clock docs history1 (Suc updated)
               (update_one_by_id coll (doc_id doc) (set_corr corr (clock updated))))"

text \<open>\<^verbatim>\<open>coll.find({"ticker": ticker}).sort("date", ASCENDING)\<close>\<close>

definition find_by_ticker :: "daily_metric list \<Rightarrow> string \<Rightarrow> daily_metric list" where
  "find_by_ticker coll t = sort_key date (filter (\<lambda>r. ticker r = t) coll)"

definition update_rolling_corr_for_ticker ::
  "daily_metric list \<Rightarrow> (nat \<Rightarrow> pdatetime) \<Rightarrow> string \<Rightarrow> int \<Rightarrow>
   py_error option \<times> daily_metric list" where
  "update_rolling_corr_for_ticker coll clock t window =
    (let docs = find_by_ticker coll t
     in if docs = [] then (None, coll)
        else corr_loop window clock docs [] 0 coll)"

subsection \<open>The correlation coefficient as the specification words it\<close>

definition mean :: "real list \<Rightarrow> real" where
  "mean xs = sum_list xs / real (length xs)"

definition sq_dev :: "real list \<Rightarrow> real" where
  "sq_dev xs = (\<Sum>x\<leftarrow>xs. (x - mean xs) ^ 2)"

definition pearson_r :: "(real \<times> real) list \<Rightarrow> real" where
  "pearson_r ps =
     (\<Sum>(x, y)\<leftarrow>ps. (x - mean (map fst ps)) * (y - mean (map snd ps)))
       / sqrt (sq_dev (map fst ps) * sq_dev (map snd ps))"

definition pearson_value :: "(real \<times> real) list \<Rightarrow> real option" where
  "pearson_value ps =
     (if length ps < 2 \<or> sq_dev (map fst ps) = 0 \<or> sq_dev (map snd ps) = 0 then None
      else Some (pearson_r ps))"




subsection \<open>Observing the pass\<close>

text \<open>The values the loop computes, one per document, in the order of the loop.\<close>

fun corr_values :: "int \<Rightarrow> hist_entry list \<Rightarrow> daily_metric list \<Rightarrow> real option list" where
  "corr_values w h [] = []"
| "corr_values w h (d # ds) =
     (let h1 = push_history w h (hist_of d)
      in pearson_value (window_pairs h1) # corr_values w h1 ds)"


definition apply_writes :: "(nat \<times> real option \<times> pdatetime) list \<Rightarrow> daily_metric \<Rightarrow> daily_metric" where
  "apply_writes ws r =
     (case map_of ws (doc_id r) of None \<Rightarrow> r | Some (c, t) \<Rightarrow> set_corr c t r)"



subsection \<open>Example collections\<close>

definition example_metric ::
  "nat \<Rightarrow> string \<Rightarrow> pdate \<Rightarrow> real option \<Rightarrow> real option \<Rightarrow> daily_metric" where
  "example_metric i t d r s =
     \<lparr>doc_id = i, ticker = t, date = start_of_day d, close_price = Some 100,
      daily_return = r, avg_sentiment_score = s, dominant_sentiment_label = None,
      article_count = Some 0, updated_at = None, rolling_corr_7d = None,
      corr_updated_at = None\<rparr>"

definition example_daily :: "daily_metric list" where
  "example_daily =
     [example_metric 1 ''AAPL'' 738892 (Some 3) (Some 3),
      example_metric 2 ''MSFT'' 738890 None (Some 1),
      example_metric 3 ''AAPL'' 738890 (Some 1) (Some 1),
      example_metric 4 ''AAPL'' 738891 (Some 2) (Some 2),
      example_metric 5 ''AAPL'' 738895 None (Some 5),
      example_metric 6 ''MSFT'' 738891 (Some 1) (Some 2),
      example_metric 7 ''MSFT'' 738892 (Some 1) (Some 3)]"

text \<open>Two clocks: a first run, and a run one day later.\<close>

definition example_clock :: "nat \<Rightarrow> pdatetime" where
  "example_clock k = start_of_day 738900 + int k"




section \<open>The daily aggregator\<close>

text \<open>The documents of \<^verbatim>\<open>price_snapshots\<close> and \<^verbatim>\<open>news_events\<close>, with the fields the aggregator reads.\<close>

record price_candle =
  candle_ticker :: string
  candle_ts :: pdatetime
  candle_close :: real

record news_event =
  news_ticker :: string
  published_at :: pdatetime
  sentiment_label :: "string option"
  sentiment_score :: "real option"

subsection \<open>Names of the module\<close>

text \<open>
  The names that \<^verbatim>\<open>daily_aggregator.py\<close> binds at module level: its imports
  (\<^verbatim>\<open>import os\<close>, \<^verbatim>\<open>from datetime import datetime, timedelta, date\<close>,
  \<^verbatim>\<open>from collections import Counter\<close>, \<^verbatim>\<open>from dotenv import load_dotenv\<close>,
  \<^verbatim>\<open>from pymongo import MongoClient, ASCENDING\<close>), its constants and its functions.
  \<^verbatim>\<open>daily_correlation.py\<close> and \<^verbatim>\<open>timeseries_builder.py\<close> import
  \<^verbatim>\<open>datetime, timedelta, UTC\<close> instead.
\<close>

definition aggregator_globals :: "string list" where
  "aggregator_globals =
     [''os'', ''datetime'', ''timedelta'', ''date'', ''Counter'', ''load_dotenv'',
      ''MongoClient'', ''ASCENDING'', ''BASE_DIR'', ''env_path'', ''MONGO_URI'',
      ''MONGO_DB_NAME'', ''TICKERS'', ''get_collections'', ''start_of_day'',
      ''build_price_series'', ''aggregate_sentiment_for_day'', ''upsert_daily_metric'',
      ''run_daily_aggregation'']"

text \<open>
  Reading a name that is not local: the module's globals are searched (then the builtins,
  which hold none of the names looked up here); a name that is not found raises.
\<close>

definition lookup_name :: "string list \<Rightarrow> string \<Rightarrow> py_error + unit" where
  "lookup_name globals n = (if n \<in> set globals then Inr () else Inl (NameError n))"

subsection \<open>The price series\<close>

record price_info =
  info_close_price :: real
  info_daily_return :: "real option"

text \<open>
  The second loop of \<^verbatim>\<open>build_price_series\<close>. The dictionary \<^verbatim>\<open>result\<close> is an association
  list in insertion order; assigning to a key that is present replaces its value in place.
\<close>

fun price_loop ::
  "real option \<Rightarrow> (pdate \<times> real) list \<Rightarrow> (pdate \<times> price_info) list \<Rightarrow>
   (pdate \<times> price_info) list" where
  "price_loop prev_close [] result = result"
| "price_loop prev_close ((d, close) # series) result =
     (let daily_ret =
        (case prev_close of
           None \<Rightarrow> None
         | Some p \<Rightarrow> if p \<noteq> 0 then Some ((close - p) / p) else None)
      in price_loop (Some close) series
           (AList.update d \<lparr>info_close_price = close, info_daily_return = daily_ret\<rparr> result))"

text \<open>\<^verbatim>\<open>prices_coll.find({"ticker": ticker}, sort=[("ts", ASCENDING)])\<close>\<close>

definition find_candles :: "price_candle list \<Rightarrow> string \<Rightarrow> price_candle list" where
  "find_candles prices_coll t = sort_key candle_ts (filter (\<lambda>c. candle_ticker c = t) prices_coll)"

definition build_price_series :: "price_candle list \<Rightarrow> string \<Rightarrow> (pdate \<times> price_info) list" where
  "build_price_series prices_coll t =
     (let rows = find_candles prices_coll t
      in if rows = [] then []
         else
           let series = map (\<lambda>doc. (date_of (candle_ts doc), candle_close doc)) rows
           in price_loop None series [])"

subsection \<open>The sentiment of a day\<close>

text \<open>
  \<^verbatim>\<open>Counter(labels)\<close>: the counts in the order in which the labels were first met.
  \<^verbatim>\<open>most_common(1)\<close> returns the first entry that has the greatest count.
\<close>

definition Counter :: "string list \<Rightarrow> (string \<times> nat) list" where
  "Counter labels = fold (\<lambda>l c. AList.map_default l 1 (\<lambda>n. n + 1) c) labels []"

fun first_max :: "string \<times> nat \<Rightarrow> (string \<times> nat) list \<Rightarrow> string \<times> nat" where
  "first_max best [] = best"
| "first_max best (x # xs) = (if snd best < snd x then first_max x xs else first_max best xs)"

definition most_common_1 :: "(string \<times> nat) list \<Rightarrow> (string \<times> nat) list" where
  "most_common_1 counter = (case counter of [] \<Rightarrow> [] | x # xs \<Rightarrow> [first_max x xs])"

text \<open>The query of \<^verbatim>\<open>aggregate_sentiment_for_day\<close>.\<close>

definition find_scored_news :: "news_event list \<Rightarrow> string \<Rightarrow> pdate \<Rightarrow> news_event list" where
  "find_scored_news news_coll t d =
     (let day_start = start_of_day d;
          day_end = day_start + 1 * usec_per_day
      in filter (\<lambda>e. news_ticker e = t
                    \<and> day_start \<le> published_at e \<and> published_at e < day_end
                    \<and> sentiment_score e \<noteq> None) news_coll)"

text \<open>A label counts when it is truthy: neither null nor the empty string.\<close>

definition truthy_label :: "news_event \<Rightarrow> string option" where
  "truthy_label doc =
     (case sentiment_label doc of
        None \<Rightarrow> None
      | Some l \<Rightarrow> if l = [] then None else Some l)"

definition aggregate_sentiment_for_day ::
  "news_event list \<Rightarrow> string \<Rightarrow> pdate \<Rightarrow> py_error + (real option \<times> string option \<times> int)" where
  "aggregate_sentiment_for_day news_coll t d =
     (let docs = find_scored_news news_coll t d
      in if docs = [] then Inr (None, None, 0)
         else
           let scores = List.map_filter sentiment_score docs;
               labels = List.map_filter truthy_label docs;
               avg_score = (if scores \<noteq> [] then Some (sum_list scores / real (length scores))
                            else None)
           in if labels \<noteq> []
              then (case most_common_1 (Counter labels) of
                      [] \<Rightarrow> Inl IndexError
                    | p # _ \<Rightarrow> Inr (avg_score, Some (fst p), int (length docs)))
              else Inr (avg_score, None, int (length docs)))"

subsection \<open>The upsert\<close>

text \<open>
  \<^verbatim>\<open>update_one(filter, {"$set": ...}, upsert=True)\<close> with a filter on ticker and date: the
  first matching document is changed; when there is none, a document made of the filter's
  fields and the fields that are set is inserted under a new identifier.
\<close>

fun update_first ::
  "(daily_metric \<Rightarrow> bool) \<Rightarrow> (daily_metric \<Rightarrow> daily_metric) \<Rightarrow> daily_metric list \<Rightarrow>
   daily_metric list" where
  "update_first P f [] = []"
| "update_first P f (r # rs) = (if P r then f r # rs else r # update_first P f rs)"

definition new_id :: "daily_metric list \<Rightarrow> nat" where
  "new_id coll = Suc (fold max (map doc_id coll) 0)"

definition upsert_one ::
  "daily_metric list \<Rightarrow> string \<Rightarrow> pdatetime \<Rightarrow> (daily_metric \<Rightarrow> daily_metric) \<Rightarrow>
   daily_metric list" where
  "upsert_one coll t dt f =
     (if \<exists>r\<in>set coll. ticker r = t \<and> date r = dt
      then update_first (\<lambda>r. ticker r = t \<and> date r = dt) f coll
      else coll @
        [f \<lparr>doc_id = new_id coll, ticker = t, date = dt, close_price = None,
            daily_return = None, avg_sentiment_score = None, dominant_sentiment_label = None,
            article_count = None, updated_at = None, rolling_corr_7d = None,
            corr_updated_at = None\<rparr>])"

definition set_metrics ::
  "string \<Rightarrow> pdatetime \<Rightarrow> real option \<Rightarrow> real option \<Rightarrow> real option \<Rightarrow> string option \<Rightarrow>
   int \<Rightarrow> pdatetime \<Rightarrow> daily_metric \<Rightarrow> daily_metric" where
  "set_metrics t dt cp dr av dl ac now doc =
     doc\<lparr>ticker := t, date := dt, close_price := cp, daily_return := dr,
         avg_sentiment_score := av, dominant_sentiment_label := dl,
         article_count := Some ac, updated_at := Some now\<rparr>"

text \<open>
  \<^verbatim>\<open>upsert_daily_metric\<close>. The arguments of \<^verbatim>\<open>update_one\<close> are evaluated before the call:
  the last value of the \<^verbatim>\<open>$set\<close> dictionary is \<^verbatim>\<open>datetime.now(UTC)\<close>, which reads the
  names \<^verbatim>\<open>datetime\<close> and \<^verbatim>\<open>UTC\<close>.
\<close>

definition upsert_daily_metric ::
  "daily_metric list \<Rightarrow> pdatetime \<Rightarrow> string \<Rightarrow> pdate \<Rightarrow> real option \<Rightarrow> real option \<Rightarrow>
   real option \<Rightarrow> string option \<Rightarrow> int \<Rightarrow> py_error + daily_metric list" where
  "upsert_daily_metric daily_coll now t d cp dr av dl ac =
     (case lookup_name aggregator_globals ''start_of_day'' of
        Inl e \<Rightarrow> Inl e
      | Inr _ \<Rightarrow>
          (let date_dt = start_of_day d
           in (case lookup_name aggregator_globals ''datetime'' of
                 Inl e \<Rightarrow> Inl e
               | Inr _ \<Rightarrow>
                   (case lookup_name aggregator_globals ''UTC'' of
                      Inl e \<Rightarrow> Inl e
                    | Inr _ \<Rightarrow>
                        Inr (upsert_one daily_coll t date_dt
                               (set_metrics t date_dt cp dr av dl ac now))))))"

subsection \<open>The aggregation run\<close>

text \<open>
  The loop over the dates of one ticker and the loop over the tickers. \<open>clock n\<close> is the
  time read by the upsert number \<open>n\<close>; the result holds the exception that ended the run,
  if any, the collection and the number of upserts done.
\<close>

fun aggregate_dates ::
  "news_event list \<Rightarrow> (pdate \<times> price_info) list \<Rightarrow> (nat \<Rightarrow> pdatetime) \<Rightarrow> pdate \<Rightarrow> string \<Rightarrow>
   pdate list \<Rightarrow> daily_metric list \<Rightarrow> nat \<Rightarrow> py_error option \<times> daily_metric list \<times> nat" where
  "aggregate_dates news_coll price_series clock start_date t [] daily_coll n =
     (None, daily_coll, n)"
| "aggregate_dates news_coll price_series clock start_date t (d # ds) daily_coll n =
     (if d < start_date
      then aggregate_dates news_coll price_series clock start_date t ds daily_coll n
      else
        case map_of price_series d of
          None \<Rightarrow> (Some KeyError, daily_coll, n)
        | Some price_info \<Rightarrow>
            (case aggregate_sentiment_for_day news_coll t d of
               Inl e \<Rightarrow> (Some e, daily_coll, n)
             | Inr (avg_sentiment, dominant_label, count) \<Rightarrow>
                 (case upsert_daily_metric daily_coll (clock n) t d
                         (Some (info_close_price price_info)) (info_daily_return price_info)
                         avg_sentiment dominant_label count of
                    Inl e \<Rightarrow> (Some e, daily_coll, n)
                  | Inr daily_coll1 \<Rightarrow>
                      aggregate_dates news_coll price_series clock start_date t ds
                        daily_coll1 (Suc n))))"

fun aggregate_tickers ::
  "news_event list \<Rightarrow> price_candle list \<Rightarrow> (nat \<Rightarrow> pdatetime) \<Rightarrow> pdate \<Rightarrow> string list \<Rightarrow>
   daily_metric list \<Rightarrow> nat \<Rightarrow> py_error option \<times> daily_metric list \<times> nat" where
  "aggregate_tickers news_coll prices_coll clock start_date [] daily_coll n =
     (None, daily_coll, n)"
| "aggregate_tickers news_coll prices_coll clock start_date (t # ts) daily_coll n =
     (let price_series = build_price_series prices_coll t
      in if price_series = []
         then aggregate_tickers news_coll prices_coll clock start_date ts daily_coll n
         else
           case aggregate_dates news_coll price_series clock start_date t
                  (sort (map fst price_series)) daily_coll n of
             (Some e, daily_coll1, n1) \<Rightarrow> (Some e, daily_coll1, n1)
           | (None, daily_coll1, n1) \<Rightarrow>
               aggregate_tickers news_coll prices_coll clock start_date ts daily_coll1 n1)"

text \<open>\<open>today\<close> is \<^verbatim>\<open>datetime.utcnow().date()\<close>.\<close>

definition run_daily_aggregation ::
  "news_event list \<Rightarrow> price_candle list \<Rightarrow> daily_metric list \<Rightarrow> pdate \<Rightarrow> (nat \<Rightarrow> pdatetime) \<Rightarrow>
   int \<Rightarrow> py_error option \<times> daily_metric list" where
  "run_daily_aggregation news_coll prices_coll daily_coll today clock days_back =
     (let start_date = today - days_back
      in case aggregate_tickers news_coll prices_coll clock start_date TICKERS daily_coll 0 of
           (err, daily_coll1, n) \<Rightarrow> (err, daily_coll1))"

section \<open>The timeseries reader and its endpoint\<close>

text \<open>
  The response of \<^verbatim>\<open>build_ticker_timeseries\<close>: \<^verbatim>\<open>from_date\<close> and \<^verbatim>\<open>to_date\<close> are \<open>None\<close>
  when the dictionary has no such key. \<^verbatim>\<open>strftime("%Y-%m-%d")\<close> is a function of the
  library, taken as the argument \<open>strftime\<close> from dates to strings.
\<close>

record timeseries_point =
  point_date :: string
  point_close_price :: "real option"
  point_daily_return :: "real option"
  point_avg_sentiment :: "real option"
  point_dominant_sentiment :: "string option"
  point_article_count :: int
  point_rolling_corr_7d :: "real option"

record timeseries =
  series_ticker :: string
  from_date :: "string option"
  to_date :: "string option"
  points :: "timeseries_point list"

text \<open>
  \<^verbatim>\<open>find_one({"ticker": ticker}, sort=[("date", -1)])\<close>: the first document in descending
  order of date.
\<close>

definition find_one_latest :: "daily_metric list \<Rightarrow> string \<Rightarrow> daily_metric option" where
  "find_one_latest coll t =
     (case rev (sort_key date (filter (\<lambda>r. ticker r = t) coll)) of
        [] \<Rightarrow> None
      | doc # _ \<Rightarrow> Some doc)"

definition get_latest_date_for_ticker :: "daily_metric list \<Rightarrow> string \<Rightarrow> pdate option" where
  "get_latest_date_for_ticker coll t =
     (case find_one_latest coll t of
        None \<Rightarrow> None
      | Some doc \<Rightarrow> Some (date_of (date doc)))"

text \<open>
  A point of the response. \<^verbatim>\<open>doc.get("article_count", 0)\<close> is 0 when the document has no
  count; the upsert always stores an integer.
\<close>

definition point_of :: "(pdate \<Rightarrow> string) \<Rightarrow> daily_metric \<Rightarrow> timeseries_point" where
  "point_of strftime doc =
     \<lparr>point_date = strftime (date_of (date doc)),
      point_close_price = close_price doc,
      point_daily_return = daily_return doc,
      point_avg_sentiment = avg_sentiment_score doc,
      point_dominant_sentiment = dominant_sentiment_label doc,
      point_article_count = (case article_count doc of None \<Rightarrow> 0 | Some n \<Rightarrow> n),
      point_rolling_corr_7d = rolling_corr_7d doc\<rparr>"

definition build_ticker_timeseries ::
  "(pdate \<Rightarrow> string) \<Rightarrow> daily_metric list \<Rightarrow> string \<Rightarrow> int \<Rightarrow> timeseries" where
  "build_ticker_timeseries strftime coll t days_back =
     (case get_latest_date_for_ticker coll t of
        None \<Rightarrow> \<lparr>series_ticker = t, from_date = None, to_date = None, points = []\<rparr>
      | Some latest_date \<Rightarrow>
          let start_date = latest_date - (days_back - 1);
              start_dt = start_of_day start_date;
              cursor = sort_key date (filter (\<lambda>r. ticker r = t \<and> start_dt \<le> date r) coll)
          in \<lparr>series_ticker = t,
              from_date = Some (strftime start_date),
              to_date = Some (strftime latest_date),
              points = map (point_of strftime) cursor\<rparr>)"

text \<open>\<^verbatim>\<open>ticker.upper()\<close>, on the letters of ASCII.\<close>

definition upper_char :: "char \<Rightarrow> char" where
  "upper_char c =
     (case map_of (zip ''abcdefghijklmnopqrstuvwxyz'' ''ABCDEFGHIJKLMNOPQRSTUVWXYZ'') c of
        None \<Rightarrow> c
      | Some u \<Rightarrow> u)"

definition str_upper :: "string \<Rightarrow> string" where
  "str_upper s = map upper_char s"

text \<open>
  The endpoint \<^verbatim>\<open>/ticker/{ticker}/timeseries\<close>. The framework rejects a value of
  \<^verbatim>\<open>days\<close> outside \<^verbatim>\<open>Query(7, ge=1, le=90)\<close> before the function runs.
\<close>

datatype http_error =
    HTTPException (status_code: int) (detail: string)
  | RequestValidationError

definition get_ticker_timeseries ::
  "(pdate \<Rightarrow> string) \<Rightarrow> daily_metric list \<Rightarrow> string \<Rightarrow> int \<Rightarrow> http_error + timeseries" where
  "get_ticker_timeseries strftime coll ticker_param days =
     (if days < 1 \<or> 90 < days then Inl RequestValidationError
      else
        let t = str_upper ticker_param
        in if t \<notin> set TICKERS
           then Inl (HTTPException 404 (''Ticker '' @ t @ '' is not supported''))
           else
             let data = build_ticker_timeseries strftime coll t days
             in if points data = []
                then Inl (HTTPException 404 (''No daily metrics found for ticker '' @ t))
                else Inr data)"

text \<open>The rendering of the dates of the examples.\<close>

definition example_strftime :: "pdate \<Rightarrow> string" where
  "example_strftime d =
     (if d = 738890 then ''2024-01-05''
      else if d = 738891 then ''2024-01-06''
      else if d = 738892 then ''2024-01-07''
      else if d = 738893 then ''2024-01-08''
      else if d = 738894 then ''2024-01-09''
      else if d = 738895 then ''2024-01-10''
      else ''other'')"

section \<open>Notions used to state the properties of the aggregator\<close>

text \<open>The assignments of the loop to the dictionary, in order.\<close>

fun price_entries :: "real option \<Rightarrow> (pdate \<times> real) list \<Rightarrow> (pdate \<times> price_info) list" where
  "price_entries prev_close [] = []"
| "price_entries prev_close ((d, close) # series) =
     (d, \<lparr>info_close_price = close,
          info_daily_return =
            (case prev_close of
               None \<Rightarrow> None
             | Some p \<Rightarrow> if p \<noteq> 0 then Some ((close - p) / p) else None)\<rparr>)
     # price_entries (Some close) series"

text \<open>
  The most frequent label of a list, ties broken by the order of first occurrence: the
  first label whose count no other label exceeds.
\<close>

definition first_most_frequent :: "string list \<Rightarrow> string option" where
  "first_most_frequent labels =
     find (\<lambda>l. \<forall>l'\<in>set labels. count_list labels l' \<le> count_list labels l) labels"

text \<open>
  The qualifying events of a ticker and a day: published in the half-open day and scored.
\<close>

definition qualifying_events :: "news_event list \<Rightarrow> string \<Rightarrow> pdate \<Rightarrow> news_event list" where
  "qualifying_events news_coll t d =
     filter (\<lambda>e. news_ticker e = t
                \<and> published_at e \<in> {start_of_day d ..< start_of_day (d + 1)}
                \<and> sentiment_score e \<noteq> None) news_coll"

subsection \<open>Example inputs\<close>



text \<open>News of two tickers and two days; one event has no score.\<close>

definition example_news :: "news_event list" where
  "example_news =
     [\<lparr>news_ticker = ''AAPL'', published_at = start_of_day 738890 + 3600000000,
       sentiment_label = Some ''bullish'', sentiment_score = Some (4 / 10)\<rparr>,
      \<lparr>news_ticker = ''AAPL'', published_at = start_of_day 738890 + 7200000000,
       sentiment_label = None, sentiment_score = None\<rparr>,
      \<lparr>news_ticker = ''MSFT'', published_at = start_of_day 738890 + 7200000000,
       sentiment_label = Some ''neutral'', sentiment_score = Some 0\<rparr>,
      \<lparr>news_ticker = ''AAPL'', published_at = start_of_day 738891,
       sentiment_label = Some ''bearish'', sentiment_score = Some (- 1 / 2)\<rparr>,
      \<lparr>news_ticker = ''AAPL'', published_at = start_of_day 738890 + 86399999999,
       sentiment_label = Some ''bearish'', sentiment_score = Some (- 2 / 10)\<rparr>]"

section \<open>Properties of the rolling correlation engine\<close>

lemma sq_dev_nonneg: "0 \<le> sq_dev xs"
  unfolding sq_dev_def by (rule sum_list_nonneg) auto

lemma pearson_corr_value: "pearson_corr ps = Inr (pearson_value ps)"
proof (cases "length ps < 2 \<or> sq_dev (map fst ps) = 0 \<or> sq_dev (map snd ps) = 0")
  case True
  then show ?thesis
    by (auto simp: pearson_corr_def pearson_value_def Let_def sq_dev_def mean_def)
next
  case False
  have nn: "0 \<le> sq_dev (map fst ps) * sq_dev (map snd ps)"
    by (simp add: sq_dev_nonneg)
  have nz: "sq_dev (map fst ps) * sq_dev (map snd ps) \<noteq> 0"
    using False by simp
  from False nn nz show ?thesis
    by (simp add: pearson_corr_def pearson_value_def pearson_r_def Let_def sq_dev_def mean_def
        py_pow_half_def py_truediv_def zip_map_fst_snd not_less)
qed

lemma window_corr_value: "window_corr h = Inr (pearson_value (window_pairs h))"
  by (simp add: window_corr_def Let_def pearson_corr_value pearson_value_def)


lemma length_corr_values [simp]: "length (corr_values w h ds) = length ds"
  by (induction ds arbitrary: h) (auto simp: Let_def)


lemma doc_id_set_corr [simp]: "doc_id (set_corr c t r) = doc_id r"
  by (simp add: set_corr_def)

lemma doc_id_apply_writes [simp]: "doc_id (apply_writes ws r) = doc_id r"
  by (simp add: apply_writes_def split: option.splits)




































lemma hist_of_apply_writes [simp]: "hist_of (apply_writes ws r) = hist_of r"
  by (simp add: apply_writes_def hist_of_def set_corr_def split: option.splits prod.splits)

lemma ticker_apply_writes [simp]: "ticker (apply_writes ws r) = ticker r"
  by (simp add: apply_writes_def set_corr_def split: option.splits prod.splits)

lemma date_apply_writes [simp]: "date (apply_writes ws r) = date r"
  by (simp add: apply_writes_def set_corr_def split: option.splits prod.splits)

lemma update_one_by_id_frame:
  "map (\<lambda>r. r\<lparr>rolling_corr_7d := None, corr_updated_at := None\<rparr>)
     (update_one_by_id coll i (set_corr c time)) =
   map (\<lambda>r. r\<lparr>rolling_corr_7d := None, corr_updated_at := None\<rparr>) coll"
  by (induction coll) (auto simp: set_corr_def)

text \<open>
  The write of the correlation pass changes \<^verbatim>\<open>rolling_corr_7d\<close> and \<^verbatim>\<open>corr_updated_at\<close>
  only: a pass leaves every other field of every document as it was.
\<close>

lemma corr_loop_frame:
  "map (\<lambda>r. r\<lparr>rolling_corr_7d := None, corr_updated_at := None\<rparr>)
     (snd (corr_loop w clock docs h k coll)) =
   map (\<lambda>r. r\<lparr>rolling_corr_7d := None, corr_updated_at := None\<rparr>) coll"
  by (induction docs arbitrary: h k coll)
    (simp_all add: Let_def window_corr_value update_one_by_id_frame)

lemma corr_pass_frame:
  "map (\<lambda>r. r\<lparr>rolling_corr_7d := None, corr_updated_at := None\<rparr>)
     (snd (update_rolling_corr_for_ticker coll clock t w)) =
   map (\<lambda>r. r\<lparr>rolling_corr_7d := None, corr_updated_at := None\<rparr>) coll"
  by (simp add: update_rolling_corr_for_ticker_def Let_def corr_loop_frame)




section \<open>Properties of the daily aggregator\<close>

lemma upsert_raises:
  "upsert_daily_metric daily_coll now t d cp dr av dl ac = Inl (NameError ''UTC'')"
  by (simp add: upsert_daily_metric_def lookup_name_def aggregator_globals_def)

lemma fold_map_default_nonempty:
  "c \<noteq> [] \<Longrightarrow> fold (\<lambda>l. AList.map_default l v f) ls c \<noteq> []"
proof (induction ls arbitrary: c)
  case Nil
  then show ?case by simp
next
  case (Cons l ls)
  have "AList.map_default l v f c \<noteq> []"
    using Cons.prems by (cases c) auto
  then show ?case using Cons.IH by simp
qed

lemma Counter_nonempty:
  assumes "labels \<noteq> []"
  shows "Counter labels \<noteq> []"
proof -
  from assms obtain l ls where ls: "labels = l # ls"
    by (cases labels) auto
  have "AList.map_default l 1 (\<lambda>n. n + 1) [] \<noteq> ([] :: (string \<times> nat) list)"
    by simp
  then have "fold (\<lambda>l. AList.map_default l 1 (\<lambda>n. n + 1)) ls
      (AList.map_default l 1 (\<lambda>n. n + 1) []) \<noteq> ([] :: (string \<times> nat) list)"
    by (rule fold_map_default_nonempty)
  then show ?thesis
    unfolding Counter_def ls by simp
qed

lemma aggregate_sentiment_returns: "\<exists>v. aggregate_sentiment_for_day news_coll t d = Inr v"
proof (cases "List.map_filter truthy_label (find_scored_news news_coll t d) = []")
  case True
  then show ?thesis by (simp add: aggregate_sentiment_for_day_def Let_def)
next
  case False
  then have "Counter (List.map_filter truthy_label (find_scored_news news_coll t d)) \<noteq> []"
    by (rule Counter_nonempty)
  then show ?thesis
    by (auto simp: aggregate_sentiment_for_day_def Let_def most_common_1_def split: list.splits)
qed

lemma aggregate_dates_writes_nothing:
  assumes "set ds \<subseteq> fst ` set price_series"
  shows "aggregate_dates news_coll price_series clock start_date t ds daily_coll n =
       (None, daily_coll, n)
     \<or> aggregate_dates news_coll price_series clock start_date t ds daily_coll n =
       (Some (NameError ''UTC''), daily_coll, n)"
  using assms
proof (induction ds)
  case Nil
  then show ?case by simp
next
  case (Cons d ds)
  show ?case
  proof (cases "d < start_date")
    case True
    with Cons show ?thesis by simp
  next
    case False
    from Cons.prems have "d \<in> fst ` set price_series"
      by simp
    then have "map_of price_series d \<noteq> None"
      by (simp add: map_of_eq_None_iff)
    then obtain info where info: "map_of price_series d = Some info"
      by blast
    obtain v where v: "aggregate_sentiment_for_day news_coll t d = Inr v"
      using aggregate_sentiment_returns by blast
    from False info v show ?thesis
      by (simp add: upsert_raises split: prod.splits)
  qed
qed

lemma aggregate_tickers_writes_nothing:
  "aggregate_tickers news_coll prices_coll clock start_date ts daily_coll n =
       (None, daily_coll, n)
   \<or> aggregate_tickers news_coll prices_coll clock start_date ts daily_coll n =
       (Some (NameError ''UTC''), daily_coll, n)"
proof (induction ts)
  case Nil
  then show ?case by simp
next
  case (Cons t ts)
  let ?ps = "build_price_series prices_coll t"
  have "set (sort (map fst ?ps)) \<subseteq> fst ` set ?ps"
    by simp
  from aggregate_dates_writes_nothing [OF this, of news_coll clock start_date t daily_coll n]
  show ?case
    using Cons.IH by (auto simp: Let_def)
qed

text \<open>
  Claim C1. Every call of \<^verbatim>\<open>upsert_daily_metric\<close> raises \<^verbatim>\<open>NameError\<close>: it evaluates
  \<^verbatim>\<open>datetime.now(UTC)\<close> and the module binds no name \<^verbatim>\<open>UTC\<close>. So a run of
  \<^verbatim>\<open>run_daily_aggregation\<close> leaves the collection of daily metrics as it found it: it
  ends without a write, or with that exception at its first upsert.
\<close>

theorem upsert_daily_metric_name_error:
  "upsert_daily_metric daily_coll now t d cp dr av dl ac = Inl (NameError ''UTC'')
   \<and> snd (run_daily_aggregation news_coll prices_coll daily_coll today clock days_back) = daily_coll
   \<and> fst (run_daily_aggregation news_coll prices_coll daily_coll today clock days_back)
       \<in> {None, Some (NameError ''UTC'')}"
proof -
  have "upsert_daily_metric daily_coll now t d cp dr av dl ac = Inl (NameError ''UTC'')"
    by (simp add: upsert_daily_metric_def lookup_name_def aggregator_globals_def)
  moreover have "snd (run_daily_aggregation news_coll prices_coll daily_coll today clock days_back) =
      daily_coll"
    and "fst (run_daily_aggregation news_coll prices_coll daily_coll today clock days_back)
       \<in> {None, Some (NameError ''UTC'')}"
    using aggregate_tickers_writes_nothing
      [of news_coll prices_coll clock "today - days_back" TICKERS daily_coll 0]
    by (auto simp: run_daily_aggregation_def Let_def)
  ultimately show ?thesis by simp
qed

text \<open>
  Claim C8. An upsert on the key of an existing row should overwrite the metric fields and
  leave \<^verbatim>\<open>rolling_corr_7d\<close> and \<^verbatim>\<open>corr_updated_at\<close> alone. On the row of AAPL for day
  738890, whose close is 100, the upsert of a close of 101 raises before \<^verbatim>\<open>update_one\<close> is
  called: nothing is overwritten. (The other half of the claim, on the write of the
  correlation pass, is \<open>corr_pass_frame\<close>.)
\<close>

theorem upsert_existing_row_raises:
  "upsert_daily_metric example_daily (example_clock 0) ''AAPL'' 738890
     (Some 101) (Some (1 / 100)) (Some (1 / 2)) (Some ''bullish'') 2 =
   Inl (NameError ''UTC'')"
  by (simp add: upsert_daily_metric_def lookup_name_def aggregator_globals_def)


lemma length_price_entries [simp]: "length (price_entries prev xs) = length xs"
  by (induction prev xs rule: price_entries.induct) auto







lemma Counter_snoc: "Counter (xs @ [x]) = AList.map_default x 1 (\<lambda>n. n + 1) (Counter xs)"
  by (simp add: Counter_def)

lemma map_of_Counter:
  "map_of (Counter xs) l = (if l \<in> set xs then Some (count_list xs l) else None)"
proof (induction xs rule: rev_induct)
  case Nil
  then show ?case by (simp add: Counter_def)
next
  case (snoc x xs)
  then show ?case
    by (auto simp: Counter_snoc map_of_map_default count_list_0_iff)
qed

lemma distinct_Counter: "distinct (map fst (Counter xs))"
proof (induction xs rule: rev_induct)
  case Nil
  then show ?case by (simp add: Counter_def)
next
  case (snoc x xs)
  then show ?case by (simp add: Counter_snoc distinct_map_default)
qed

lemma keys_Counter: "fst ` set (Counter xs) = set xs"
proof (induction xs rule: rev_induct)
  case Nil
  then show ?case by (simp add: Counter_def)
next
  case (snoc x xs)
  then show ?case by (simp add: Counter_snoc dom_map_default)
qed

lemma map_fst_map_default:
  "map fst (AList.map_default k v f al) =
     (if k \<in> fst ` set al then map fst al else map fst al @ [k])"
  by (induction al) auto

lemma find_snoc:
  "find P (xs @ [x]) = (case find P xs of None \<Rightarrow> if P x then Some x else None | Some y \<Rightarrow> Some y)"
  by (induction xs) auto

lemma find_keys_Counter: "find P (map fst (Counter xs)) = find P xs"
proof (induction xs rule: rev_induct)
  case Nil
  then show ?case by (simp add: Counter_def)
next
  case (snoc x xs)
  show ?case
  proof (cases "x \<in> set xs")
    case True
    then have "map fst (Counter (xs @ [x])) = map fst (Counter xs)"
      by (simp add: Counter_snoc map_fst_map_default keys_Counter)
    moreover have "find P xs = None \<Longrightarrow> \<not> P x"
      using True by (auto simp: find_None_iff)
    ultimately show ?thesis
      using snoc.IH by (auto simp: find_snoc split: option.splits)
  next
    case False
    then have "map fst (Counter (xs @ [x])) = map fst (Counter xs) @ [x]"
      by (simp add: Counter_snoc map_fst_map_default keys_Counter)
    then show ?thesis
      using snoc.IH by (simp add: find_snoc)
  qed
qed

lemma first_max_find:
  "find (\<lambda>p. \<forall>q\<in>set (b # xs). snd q \<le> snd p) (b # xs) = Some (first_max b xs)"
proof (induction xs arbitrary: b)
  case Nil
  then show ?case by simp
next
  case (Cons x xs)
  define M where "M = (\<lambda>p :: string \<times> nat. \<forall>q\<in>set (b # x # xs). snd q \<le> snd p)"
  define Mb where "Mb = (\<lambda>p :: string \<times> nat. \<forall>q\<in>set (b # xs). snd q \<le> snd p)"
  define Mx where "Mx = (\<lambda>p :: string \<times> nat. \<forall>q\<in>set (x # xs). snd q \<le> snd p)"
  have ihb: "find Mb (b # xs) = Some (first_max b xs)"
    unfolding Mb_def by (rule Cons.IH)
  have ihx: "find Mx (x # xs) = Some (first_max x xs)"
    unfolding Mx_def by (rule Cons.IH)
  show ?case
  proof (cases "snd b < snd x")
    case True
    have nb: "\<not> M b"
      using True by (auto simp: M_def)
    have "find M (x # xs) = find Mx (x # xs)"
    proof (rule find_cong [OF refl])
      fix p assume "p \<in> set (x # xs)"
      show "M p = Mx p"
        using True by (fastforce simp: M_def Mx_def)
    qed
    then have "find M (b # x # xs) = Some (first_max x xs)"
      using nb ihx by simp
    with True show ?thesis
      by (simp add: M_def)
  next
    case False
    have eq: "find M ys = find Mb ys" if "set ys \<subseteq> set (b # xs)" for ys
    proof (rule find_cong [OF refl])
      fix p assume "p \<in> set ys"
      show "M p = Mb p"
        using False by (fastforce simp: M_def Mb_def)
    qed
    have nx: "M x \<Longrightarrow> M b"
      using False by (fastforce simp: M_def)
    have "find M (b # x # xs) = find Mb (b # xs)"
    proof (cases "M b")
      case True
      then have "Mb b" by (simp add: M_def Mb_def)
      with True show ?thesis by simp
    next
      case nb: False
      then have "\<not> Mb b" using False by (fastforce simp: M_def Mb_def)
      moreover have "\<not> M x" using nx nb by blast
      moreover have "find M xs = find Mb xs"
        by (rule eq) auto
      ultimately show ?thesis using nb by simp
    qed
    with ihb False show ?thesis
      by (simp add: M_def)
  qed
qed

lemma find_map: "find P (map f xs) = map_option f (find (\<lambda>x. P (f x)) xs)"
  by (induction xs) auto

lemma Counter_as_map:
  "Counter xs = map (\<lambda>k. (k, count_list xs k)) (map fst (Counter xs))"
proof -
  have "p = (fst p, count_list xs (fst p))" if "p \<in> set (Counter xs)" for p
  proof -
    from that have "map_of (Counter xs) (fst p) = Some (snd p)"
      using distinct_Counter [of xs] by simp
    then show ?thesis
      by (cases p) (auto simp: map_of_Counter split: if_splits)
  qed
  then show ?thesis
    by (simp add: map_idI comp_def cong: map_cong)
qed

lemma most_common_1_Counter:
  assumes "labels \<noteq> []"
  shows "\<exists>p. most_common_1 (Counter labels) = [p] \<and> Some (fst p) = first_most_frequent labels"
proof -
  let ?c = "Counter labels"
  let ?count = "count_list labels"
  from assms have "fst ` set ?c \<noteq> {}"
    by (simp add: keys_Counter)
  then obtain b xs where c: "?c = b # xs"
    by (cases ?c) auto
  have mc: "most_common_1 ?c = [first_max b xs]"
    by (simp add: most_common_1_def c)
  have "Some (first_max b xs) = find (\<lambda>p. \<forall>q\<in>set ?c. snd q \<le> snd p) ?c"
    using first_max_find [of b xs] c by simp
  also have "\<dots> = find (\<lambda>p. \<forall>q\<in>set ?c. snd q \<le> snd p)
      (map (\<lambda>k. (k, ?count k)) (map fst ?c))"
    using Counter_as_map [of labels] by simp
  also have "\<dots> = map_option (\<lambda>k. (k, ?count k))
      (find (\<lambda>k. \<forall>q\<in>set ?c. snd q \<le> ?count k) (map fst ?c))"
    by (simp only: find_map snd_conv)
  also have "(\<lambda>k. \<forall>q\<in>set ?c. snd q \<le> ?count k) =
      (\<lambda>k. \<forall>l'\<in>set labels. ?count l' \<le> ?count k)"
  proof (rule ext)
    fix k
    have "set ?c = (\<lambda>k. (k, ?count k)) ` set labels"
      using Counter_as_map [of labels] keys_Counter [of labels]
      by (metis (no_types, lifting) list.set_map)
    then show "(\<forall>q\<in>set ?c. snd q \<le> ?count k) = (\<forall>l'\<in>set labels. ?count l' \<le> ?count k)"
      by simp
  qed
  also have "find (\<lambda>k. \<forall>l'\<in>set labels. ?count l' \<le> ?count k) (map fst ?c) =
      first_most_frequent labels"
    by (simp add: find_keys_Counter first_most_frequent_def)
  finally have "Some (first_max b xs) =
      map_option (\<lambda>k. (k, ?count k)) (first_most_frequent labels)" .
  then have "Some (fst (first_max b xs)) = first_most_frequent labels"
    by (cases "first_most_frequent labels") auto
  with mc show ?thesis by simp
qed

lemma find_scored_news_qualifying: "find_scored_news news_coll t d = qualifying_events news_coll t d"
  by (simp add: find_scored_news_def qualifying_events_def Let_def start_of_day_def
      algebra_simps)

lemma map_filter_all_some:
  "\<forall>x\<in>set xs. f x \<noteq> None \<Longrightarrow> length (List.map_filter f xs) = length xs"
  by (induction xs) (auto split: option.splits)

lemma map_filter_cong_set:
  "\<forall>x\<in>set xs. f x = g x \<Longrightarrow> List.map_filter f xs = List.map_filter g xs"
  by (induction xs) (auto split: option.splits)

text \<open>
  Claim C6. With no qualifying event (an event of the ticker published in the half-open
  day, with a score) the aggregator returns (null, null, 0). Otherwise it returns the mean
  of the qualifying scores, the most frequent non-null label with ties broken by the
  order of retrieval (null when no qualifying event has a label), and the number of
  qualifying events. Labels are taken from the label set of the data model: none is the
  empty string.
\<close>

theorem aggregate_sentiment_for_day_result:
  assumes "\<forall>e\<in>set news_coll. sentiment_label e \<noteq> Some []"
    and "docs = qualifying_events news_coll t d"
  shows "aggregate_sentiment_for_day news_coll t d =
     Inr (if docs = [] then (None, None, 0)
          else (Some (sum_list (List.map_filter sentiment_score docs) / real (length docs)),
                first_most_frequent (List.map_filter sentiment_label docs),
                int (length docs)))"
proof (cases "docs = []")
  case True
  then show ?thesis
    using assms(2) by (simp add: aggregate_sentiment_for_day_def find_scored_news_qualifying)
next
  case False
  let ?scores = "List.map_filter sentiment_score docs"
  let ?labels = "List.map_filter sentiment_label docs"
  have docs: "find_scored_news news_coll t d = docs"
    using assms(2) by (simp add: find_scored_news_qualifying)
  have sub: "set docs \<subseteq> set news_coll"
    using assms(2) by (auto simp: qualifying_events_def)
  have "\<forall>e\<in>set docs. sentiment_score e \<noteq> None"
    using assms(2) by (auto simp: qualifying_events_def)
  then have len: "length ?scores = length docs"
    by (rule map_filter_all_some)
  with False have ne: "?scores \<noteq> []" by auto
  have "\<forall>e\<in>set docs. truthy_label e = sentiment_label e"
    using assms(1) sub by (auto simp: truthy_label_def split: option.splits)
  then have labels: "List.map_filter truthy_label docs = ?labels"
    by (rule map_filter_cong_set)
  show ?thesis
  proof (cases "?labels = []")
    case True
    with False ne len docs labels show ?thesis
      by (simp add: aggregate_sentiment_for_day_def Let_def first_most_frequent_def)
  next
    case nonempty: False
    from most_common_1_Counter [OF this] obtain p where
      p: "most_common_1 (Counter ?labels) = [p]" "Some (fst p) = first_most_frequent ?labels"
      by blast
    with False ne len docs labels nonempty show ?thesis
      by (simp add: aggregate_sentiment_for_day_def Let_def)
  qed
qed

lemma example_qualifying:
  "qualifying_events example_news ''AAPL'' 738890 =
     [\<lparr>news_ticker = ''AAPL'', published_at = start_of_day 738890 + 3600000000,
       sentiment_label = Some ''bullish'', sentiment_score = Some (4 / 10)\<rparr>,
      \<lparr>news_ticker = ''AAPL'', published_at = start_of_day 738890 + 86399999999,
       sentiment_label = Some ''bearish'', sentiment_score = Some (- 2 / 10)\<rparr>]"
  by (simp add: qualifying_events_def example_news_def start_of_day_def usec_per_day_def
      del: not_None_eq)

theorem aggregate_sentiment_for_day_result_witness:
  "aggregate_sentiment_for_day example_news ''AAPL'' 738890 = Inr (Some (1 / 10), Some ''bullish'', 2)"
proof -
  have labels: "\<forall>e\<in>set example_news. sentiment_label e \<noteq> Some []"
    by (simp add: example_news_def)
  from aggregate_sentiment_for_day_result [OF labels refl, of "''AAPL''" 738890] show ?thesis
    by (simp add: example_qualifying first_most_frequent_def)
qed

section \<open>Properties of the timeseries reader and its endpoint\<close>

lemma start_of_day_le: "start_of_day s \<le> x \<longleftrightarrow> s \<le> date_of x"
  unfolding start_of_day_def date_of_def usec_per_day_def by linarith

lemma date_of_mono: "mono date_of"
  by (rule monoI) (simp add: date_of_def usec_per_day_def zdiv_mono1)

lemma sorted_le_last:
  fixes xs :: "int list"
  assumes "sorted xs" "x \<in> set xs"
  shows "x \<le> last xs"
  using assms by (induction xs) (auto split: if_splits)

lemma date_last_sort_key:
  assumes "rows \<noteq> []"
  shows "date (last (sort_key date rows)) = Max (date ` set rows)"
proof -
  let ?xs = "sort_key date rows"
  have ne: "?xs \<noteq> []"
    using assms by (metis length_sort list.size(3) length_0_conv)
  have srt: "sorted (map date ?xs)"
    by (rule sorted_sort_key)
  have lst: "date (last ?xs) = last (map date ?xs)"
    using ne by (simp add: last_map)
  have "Max (date ` set rows) = date (last ?xs)"
  proof (rule Max_eqI)
    show "finite (date ` set rows)" by simp
    show "date (last ?xs) \<in> date ` set rows"
      using last_in_set [OF ne] by simp
    fix y assume "y \<in> date ` set rows"
    then have "y \<in> set (map date ?xs)" by simp
    from sorted_le_last [OF srt this] lst show "y \<le> date (last ?xs)" by simp
  qed
  then show ?thesis by simp
qed

lemma get_latest_date_None:
  "get_latest_date_for_ticker coll t = None \<longleftrightarrow> filter (\<lambda>r. ticker r = t) coll = []"
proof -
  let ?rows = "filter (\<lambda>r. ticker r = t) coll"
  have "sort_key date ?rows = [] \<longleftrightarrow> ?rows = []"
    by (metis length_sort length_0_conv)
  then show ?thesis
    by (auto simp: get_latest_date_for_ticker_def find_one_latest_def split: list.splits)
qed

lemma get_latest_date_Max:
  assumes "rows = filter (\<lambda>r. ticker r = t) coll" and "rows \<noteq> []"
  shows "get_latest_date_for_ticker coll t = Some (Max ((\<lambda>r. date_of (date r)) ` set rows))"
proof -
  let ?xs = "sort_key date rows"
  have ne: "?xs \<noteq> []"
    using assms(2) by (metis length_sort length_0_conv)
  then have "rev ?xs = last ?xs # tl (rev ?xs)"
    by (metis hd_rev list.collapse rev_is_Nil_conv)
  then have r: "rev (sort_key date (filter (\<lambda>r. ticker r = t) coll)) = last ?xs # tl (rev ?xs)"
    using assms(1) by simp
  have "find_one_latest coll t = Some (last ?xs)"
    unfolding find_one_latest_def by (subst r) simp
  moreover have "date_of (Max (date ` set rows)) = Max (date_of ` date ` set rows)"
    using assms(2) by (intro mono_Max_commute date_of_mono) auto
  ultimately show ?thesis
    using date_last_sort_key [OF assms(2)]
    by (simp add: get_latest_date_for_ticker_def image_image)
qed

text \<open>
  Claim C9. For a ticker with at least one row and every \<^verbatim>\<open>days_back\<close>, the reader
  returns \<^verbatim>\<open>to_date\<close> as the latest stored date of the ticker (the clock is not read),
  \<^verbatim>\<open>from_date\<close> as that date minus \<open>days_back - 1\<close> days, and as points exactly the rows of
  the ticker whose date is not before \<^verbatim>\<open>from_date\<close>, in ascending order of date, each
  with its stored values, nulls included.
\<close>

theorem build_ticker_timeseries_window:
  assumes "rows = filter (\<lambda>r. ticker r = t) coll"
    and "rows \<noteq> []"
    and "latest = Max ((\<lambda>r. date_of (date r)) ` set rows)"
    and "start = latest - (days_back - 1)"
    and "selected = sort_key date (filter (\<lambda>r. start \<le> date_of (date r)) rows)"
    and "result = build_ticker_timeseries strftime coll t days_back"
  shows "to_date result = Some (strftime latest)
     \<and> from_date result = Some (strftime start)
     \<and> sorted (map date selected)
     \<and> map point_date (points result) = map (\<lambda>r. strftime (date_of (date r))) selected
     \<and> map point_close_price (points result) = map close_price selected
     \<and> map point_daily_return (points result) = map daily_return selected
     \<and> map point_avg_sentiment (points result) = map avg_sentiment_score selected
     \<and> map point_dominant_sentiment (points result) = map dominant_sentiment_label selected
     \<and> map point_article_count (points result) =
         map (\<lambda>r. case article_count r of None \<Rightarrow> 0 | Some n \<Rightarrow> n) selected
     \<and> map point_rolling_corr_7d (points result) = map rolling_corr_7d selected"
proof -
  have latest: "get_latest_date_for_ticker coll t = Some latest"
    using get_latest_date_Max [OF assms(1,2)] assms(3) by simp
  have sel: "sort_key date (filter (\<lambda>r. ticker r = t \<and> start_of_day start \<le> date r) coll) = selected"
    using assms(1,5) by (simp add: start_of_day_le conj_commute)
  have res: "result = \<lparr>series_ticker = t, from_date = Some (strftime start),
      to_date = Some (strftime latest), points = map (point_of strftime) selected\<rparr>"
    using latest sel assms(4,6) by (simp add: build_ticker_timeseries_def Let_def)
  have "sorted (map date selected)"
    unfolding assms(5) by (rule sorted_sort_key)
  then show ?thesis
    unfolding res by (simp add: point_of_def comp_def)
qed

lemma example_rows_aapl:
  "filter (\<lambda>r. ticker r = ''AAPL'') example_daily =
     [example_metric 1 ''AAPL'' 738892 (Some 3) (Some 3),
      example_metric 3 ''AAPL'' 738890 (Some 1) (Some 1),
      example_metric 4 ''AAPL'' 738891 (Some 2) (Some 2),
      example_metric 5 ''AAPL'' 738895 None (Some 5)]"
  by (simp add: example_daily_def example_metric_def)

theorem build_ticker_timeseries_window_witness:
  "to_date (build_ticker_timeseries example_strftime example_daily ''AAPL'' 5) = Some ''2024-01-10''
   \<and> from_date (build_ticker_timeseries example_strftime example_daily ''AAPL'' 5) = Some ''2024-01-06''
   \<and> map point_date (points (build_ticker_timeseries example_strftime example_daily ''AAPL'' 5)) =
       [''2024-01-06'', ''2024-01-07'', ''2024-01-10'']
   \<and> map point_daily_return (points (build_ticker_timeseries example_strftime example_daily ''AAPL'' 5)) =
       [Some 2, Some 3, None]"
proof -
  have ne: "filter (\<lambda>r. ticker r = ''AAPL'') example_daily \<noteq> []"
    by (simp add: example_rows_aapl)
  have latest: "Max ((\<lambda>r. date_of (date r)) ` set (filter (\<lambda>r. ticker r = ''AAPL'') example_daily)) =
      738895"
    by (simp add: example_rows_aapl example_metric_def date_of_def start_of_day_def usec_per_day_def)
  have sel: "sort_key date (filter (\<lambda>r. 738895 - (5 - 1) \<le> date_of (date r))
        (filter (\<lambda>r. ticker r = ''AAPL'') example_daily)) =
      [example_metric 4 ''AAPL'' 738891 (Some 2) (Some 2),
       example_metric 1 ''AAPL'' 738892 (Some 3) (Some 3),
       example_metric 5 ''AAPL'' 738895 None (Some 5)]"
    by (simp add: example_rows_aapl example_metric_def date_of_def start_of_day_def usec_per_day_def)
  from build_ticker_timeseries_window [OF refl ne refl refl refl refl, of example_strftime 5] show ?thesis
    unfolding latest sel
    by (simp add: example_metric_def date_of_def start_of_day_def usec_per_day_def
        example_strftime_def)
qed

text \<open>
  Claim C10, as stated: an unsupported ticker and a supported ticker without rows are told
  apart by the response code, the second being an empty result. At the endpoint both are
  the error 404; TSLA is supported and has no row in the example collection.
\<close>

theorem no_rows_and_unsupported_both_404:
  "get_ticker_timeseries example_strftime example_daily ''TSLA'' 7 =
     Inl (HTTPException 404 ''No daily metrics found for ticker TSLA'')
   \<and> get_ticker_timeseries example_strftime example_daily ''ZZZZ'' 7 =
     Inl (HTTPException 404 ''Ticker ZZZZ is not supported'')"
  by (simp add: get_ticker_timeseries_def str_upper_def upper_char_def TICKERS_def Let_def
      build_ticker_timeseries_def get_latest_date_for_ticker_def find_one_latest_def
      example_daily_def example_metric_def)

text \<open>
  Claim C10, amended. For a request with \<^verbatim>\<open>days\<close> in 1..90: a ticker outside the supported
  set yields the error 404 with the detail "Ticker T is not supported"; a supported
  ticker without rows makes the reader return \<^verbatim>\<open>points: []\<close> with no dates, which the
  endpoint turns into the error 404 with the detail "No daily metrics found for ticker
  T"; a supported ticker with rows yields the reader's result. The two errors have the
  same code and differ in their detail.
\<close>

theorem get_ticker_timeseries_outcomes:
  assumes "1 \<le> days" and "days \<le> 90"
    and "t = str_upper ticker_param"
  shows "(t \<notin> set TICKERS \<longrightarrow>
          get_ticker_timeseries strftime coll ticker_param days =
            Inl (HTTPException 404 (''Ticker '' @ t @ '' is not supported'')))
     \<and> (t \<in> set TICKERS \<and> filter (\<lambda>r. ticker r = t) coll = [] \<longrightarrow>
          build_ticker_timeseries strftime coll t days =
            \<lparr>series_ticker = t, from_date = None, to_date = None, points = []\<rparr>
          \<and> get_ticker_timeseries strftime coll ticker_param days =
            Inl (HTTPException 404 (''No daily metrics found for ticker '' @ t)))
     \<and> (t \<in> set TICKERS \<and> filter (\<lambda>r. ticker r = t) coll \<noteq> [] \<longrightarrow>
          get_ticker_timeseries strftime coll ticker_param days =
            Inr (build_ticker_timeseries strftime coll t days))
     \<and> HTTPException 404 (''Ticker '' @ t @ '' is not supported'') \<noteq>
        HTTPException 404 (''No daily metrics found for ticker '' @ t)"
proof -
  have range: "\<not> (days < 1 \<or> 90 < days)"
    using assms(1,2) by simp
  have unsupported: "t \<notin> set TICKERS \<Longrightarrow>
      get_ticker_timeseries strftime coll ticker_param days =
        Inl (HTTPException 404 (''Ticker '' @ t @ '' is not supported''))"
    using range assms(3) by (simp add: get_ticker_timeseries_def Let_def)
  have empty: "build_ticker_timeseries strftime coll t days =
        \<lparr>series_ticker = t, from_date = None, to_date = None, points = []\<rparr>"
    if "filter (\<lambda>r. ticker r = t) coll = []"
    using that get_latest_date_None [of coll t] by (simp add: build_ticker_timeseries_def)
  have no_rows: "get_ticker_timeseries strftime coll ticker_param days =
        Inl (HTTPException 404 (''No daily metrics found for ticker '' @ t))"
    if "t \<in> set TICKERS" "filter (\<lambda>r. ticker r = t) coll = []"
    using that range assms(3) empty by (simp add: get_ticker_timeseries_def Let_def)
  have some_rows: "get_ticker_timeseries strftime coll ticker_param days =
        Inr (build_ticker_timeseries strftime coll t days)"
    if sup: "t \<in> set TICKERS" and rows: "filter (\<lambda>r. ticker r = t) coll \<noteq> []"
  proof -
    define rows where "rows = filter (\<lambda>r. ticker r = t) coll"
    define latest where "latest = Max ((\<lambda>r. date_of (date r)) ` set rows)"
    have rows_ne: "rows \<noteq> []"
      using rows unfolding rows_def .
    have latest: "get_latest_date_for_ticker coll t = Some latest"
      unfolding latest_def by (rule get_latest_date_Max [OF rows_def rows_ne])
    have ne: "(\<lambda>r. date_of (date r)) ` set rows \<noteq> {}"
      using rows_ne by simp
    have fin: "finite ((\<lambda>r. date_of (date r)) ` set rows)"
      by (rule finite_imageI) (rule finite_set)
    have "latest \<in> (\<lambda>r. date_of (date r)) ` set rows"
      unfolding latest_def by (rule Max_in [OF fin ne])
    then obtain r where r: "r \<in> set rows" "latest = date_of (date r)"
      by (rule imageE)
    have rc: "r \<in> set coll" and rt: "ticker r = t"
      using r(1) by (simp_all add: rows_def)
    have "latest - (days - 1) \<le> date_of (date r)"
      using r(2) assms(1) by linarith
    then have "start_of_day (latest - (days - 1)) \<le> date r"
      by (simp only: start_of_day_le)
    with rc rt have "r \<in> set (filter (\<lambda>r. ticker r = t \<and> start_of_day (latest - (days - 1)) \<le> date r) coll)"
      by (simp only: set_filter mem_Collect_eq simp_thms)
    then have "filter (\<lambda>r. ticker r = t \<and> start_of_day (latest - (days - 1)) \<le> date r) coll \<noteq> []"
      by (metis empty_iff empty_set)
    then have "sort_key date
        (filter (\<lambda>r. ticker r = t \<and> start_of_day (latest - (days - 1)) \<le> date r) coll) \<noteq> []"
      by (metis length_sort length_0_conv)
    then have "points (build_ticker_timeseries strftime coll t days) \<noteq> []"
      using latest by (simp add: build_ticker_timeseries_def Let_def)
    then show ?thesis
      using sup range assms(3) by (simp add: get_ticker_timeseries_def Let_def)
  qed
  have differ: "HTTPException 404 (''Ticker '' @ t @ '' is not supported'') \<noteq>
      HTTPException 404 (''No daily metrics found for ticker '' @ t)"
    by simp
  show ?thesis
    apply (intro conjI impI)
    subgoal by (rule unsupported)
    subgoal by (rule empty) (erule conjunct2)
    subgoal by (rule no_rows) (erule conjunct1, erule conjunct2)
    subgoal by (rule some_rows) (erule conjunct1, erule conjunct2)
    subgoal by (rule differ)
    done
qed

theorem get_ticker_timeseries_outcomes_witness:
  "get_ticker_timeseries example_strftime example_daily ''qqq'' 30 =
     Inl (HTTPException 404 ''Ticker QQQ is not supported'')
   \<and> get_ticker_timeseries example_strftime example_daily ''nvda'' 30 =
     Inl (HTTPException 404 ''No daily metrics found for ticker NVDA'')
   \<and> get_ticker_timeseries example_strftime example_daily ''msft'' 30 =
     Inr (build_ticker_timeseries example_strftime example_daily ''MSFT'' 30)"
proof -
  have up: "''QQQ'' = str_upper ''qqq''" "''NVDA'' = str_upper ''nvda''" "''MSFT'' = str_upper ''msft''"
    by (simp_all add: str_upper_def upper_char_def)
  have days: "(1::int) \<le> 30" "(30::int) \<le> 90"
    by simp_all
  have a: "''QQQ'' \<notin> set TICKERS"
    and b: "''NVDA'' \<in> set TICKERS \<and> filter (\<lambda>r. ticker r = ''NVDA'') example_daily = []"
    and c: "''MSFT'' \<in> set TICKERS \<and> filter (\<lambda>r. ticker r = ''MSFT'') example_daily \<noteq> []"
    by (simp_all add: TICKERS_def example_daily_def example_metric_def)
  have "get_ticker_timeseries example_strftime example_daily ''qqq'' 30 =
      Inl (HTTPException 404 ''Ticker QQQ is not supported'')"
    using get_ticker_timeseries_outcomes [OF days up(1), of example_strftime example_daily] a by simp
  moreover have "get_ticker_timeseries example_strftime example_daily ''nvda'' 30 =
      Inl (HTTPException 404 ''No daily metrics found for ticker NVDA'')"
    using get_ticker_timeseries_outcomes [OF days up(2), of example_strftime example_daily] b by simp
  moreover have "get_ticker_timeseries example_strftime example_daily ''msft'' 30 =
      Inr (build_ticker_timeseries example_strftime example_daily ''MSFT'' 30)"
    using get_ticker_timeseries_outcomes [OF days up(3), of example_strftime example_daily] c by simp
  ultimately show ?thesis by simp
qed

end
